theory Spec2Isabelle
  imports Main "HOL-Library.Char_ord" "HOL-Library.List_Lexorder" "HOL-Library.Multiset"
begin

section \<open>Python values, errors and collaborator calls\<close>

text \<open>
  The values that travel through the field layer of \<^verbatim>\<open>conditions/fields.py\<close>: plain
  JSON-like Python data, and instances of \<^verbatim>\<open>CondList\<close>. \<^verbatim>\<open>isinstance(value, CondList)\<close>
  is the test for the constructor \<open>CondList\<close>; \<^verbatim>\<open>value is None\<close> is \<open>value = PNone\<close>.
\<close>

datatype pyval =
    PNone
  | PBool bool
  | PInt int
  | PStr string
  | PList "pyval list"
  | PTuple "pyval list"
  | PDict "(string \<times> pyval) list"

datatype 'c "value" = CondList 'c | Plain pyval

datatype error =
    TypeError string
  | ValueError string
  | AttributeError string
  | ValidationError string
  | InvalidConditionError string
  | MalformedInput string

text \<open>
  Calls to collaborators, recorded in the order the code makes them, so that
  "is encoded first" and "decode is never invoked" are statements about a value.
\<close>

datatype 'c call =
    Call_encode 'c
  | Call_decode pyval
  | Call_super pyval

fun isinstance_str :: "pyval \<Rightarrow> bool" where
  "isinstance_str (PStr s) = True"
| "isinstance_str v = False"

fun isinstance_dict :: "pyval \<Rightarrow> bool" where
  "isinstance_dict (PDict kvs) = True"
| "isinstance_dict v = False"

fun isinstance_list_tuple :: "pyval \<Rightarrow> bool" where
  "isinstance_list_tuple (PList xs) = True"
| "isinstance_list_tuple (PTuple xs) = True"
| "isinstance_list_tuple v = False"

text \<open>\<^verbatim>\<open>type(value).__name__\<close>\<close>

fun type_name :: "pyval \<Rightarrow> string" where
  "type_name PNone = ''NoneType''"
| "type_name (PBool b) = ''bool''"
| "type_name (PInt i) = ''int''"
| "type_name (PStr s) = ''str''"
| "type_name (PList xs) = ''list''"
| "type_name (PTuple xs) = ''tuple''"
| "type_name (PDict kvs) = ''dict''"

text \<open>The slice \<^verbatim>\<open>v[1:-1]\<close>; Python raises TypeError where the value has no slicing.\<close>

fun slice_1_m1 :: "pyval \<Rightarrow> error + pyval" where
  "slice_1_m1 (PStr s) = Inr (PStr (butlast (tl s)))"
| "slice_1_m1 (PList xs) = Inr (PList (butlast (tl xs)))"
| "slice_1_m1 (PTuple xs) = Inr (PTuple (butlast (tl xs)))"
| "slice_1_m1 v = Inl (TypeError (CHR 0x27 # type_name v @ CHR 0x27 # '' object is not subscriptable''))"

text \<open>
  The error of calling, through \<^verbatim>\<open>super()\<close>, a method that no class further along the
  method resolution order defines.
\<close>

definition no_attribute :: "string \<Rightarrow> error" where
  "no_attribute name =
     AttributeError (CHR 0x27 # ''super'' @ CHR 0x27 # '' object has no attribute ''
                       @ CHR 0x27 # name @ [CHR 0x27])"

section \<open>TextJSONField\<close>

text \<open>
  The attributes of a \<^verbatim>\<open>TextJSONField\<close> that the modelled methods read. The encoder
  settings are handed to \<^verbatim>\<open>json.dumps\<close> unread, so their type is left open; \<^verbatim>\<open>json.dumps\<close>
  itself is a parameter \<open>dumps\<close> of the methods, and may raise.
\<close>

record 'k TextJSONField =
  field_null :: bool
  field_blank :: bool
  encoder_kwargs :: 'k

definition get_prep_value ::
  "('k \<Rightarrow> pyval \<Rightarrow> error + string) \<Rightarrow> 'k TextJSONField \<Rightarrow> pyval \<Rightarrow> error + pyval" where
  "get_prep_value dumps self v =
     (if v = PNone then
        (if \<not> field_null self \<and> field_blank self then Inr (PStr '''') else Inr PNone)
      else (case dumps (encoder_kwargs self) v of
              Inl e \<Rightarrow> Inl e
            | Inr s \<Rightarrow> Inr (PStr s)))"


text \<open>
  \<^verbatim>\<open>get_prep_lookup\<close>. \<open>repr\<close> stands for Python's \<^verbatim>\<open>%r\<close> formatting of the lookup
  type. The statement after the \<^verbatim>\<open>raise\<close> in the list/tuple branch is dead code and
  has no counterpart here.
\<close>

definition get_prep_lookup ::
  "(string \<Rightarrow> string) \<Rightarrow> ('k \<Rightarrow> pyval \<Rightarrow> error + string) \<Rightarrow> 'k TextJSONField
     \<Rightarrow> string \<Rightarrow> pyval \<Rightarrow> error + pyval" where
  "get_prep_lookup repr dumps self lookup_type v =
     (if lookup_type \<in> set [''exact'', ''iexact'', ''in'', ''isnull''] then Inr v
      else if lookup_type \<in> set [''contains'', ''icontains''] then
        (if isinstance_list_tuple v then
           Inl (TypeError (''Lookup type '' @ repr lookup_type
                  @ '' not supported with argument of '' @ type_name v))
         else if isinstance_dict v then
           (case get_prep_value dumps self v of
              Inl e \<Rightarrow> Inl e
            | Inr p \<Rightarrow> slice_1_m1 p)
         else get_prep_value dumps self v)
      else Inl (TypeError (''Lookup type '' @ repr lookup_type @ '' not supported'')))"

section \<open>ConditionsFormField\<close>

text \<open>
  \<^verbatim>\<open>ConditionsFormField.clean\<close>. The inherited \<^verbatim>\<open>clean\<close> of \<^verbatim>\<open>JSONFormField\<close> and
  \<^verbatim>\<open>CondList.decode\<close> are parameters; both may raise. The second component lists the
  calls made, in order.
\<close>

definition clean ::
  "(pyval \<Rightarrow> error + pyval) \<Rightarrow> (pyval \<Rightarrow> 'd \<Rightarrow> error + 'c) \<Rightarrow> 'd \<Rightarrow> pyval
     \<Rightarrow> (error + pyval) \<times> 'c call list" where
  "clean super_clean decode condition_definitions v =
     (case super_clean v of
        Inl e \<Rightarrow> (Inl e, [Call_super v])
      | Inr cleaned_json \<Rightarrow>
          if cleaned_json = PNone then (Inr PNone, [Call_super v])
          else
            (case decode cleaned_json condition_definitions of
               Inl (InvalidConditionError msg) \<Rightarrow>
                 (Inl (ValidationError (''Invalid conditions JSON: '' @ msg)),
                  [Call_super v, Call_decode cleaned_json])
             | Inl e \<Rightarrow> (Inl e, [Call_super v, Call_decode cleaned_json])
             | Inr t \<Rightarrow> (Inr cleaned_json, [Call_super v, Call_decode cleaned_json])))"


section \<open>BaseConditionField\<close>

text \<open>
  \<^verbatim>\<open>BaseConditionField\<close> is a mixin: what \<^verbatim>\<open>super()\<close> reaches depends on the classes that
  follow it in the method resolution order. An inherited method is therefore an optional
  parameter, \<open>None\<close> when no later class defines it; the call through \<^verbatim>\<open>super()\<close> then
  raises AttributeError and the rest of the body does not run.
\<close>

definition pre_init ::
  "(pyval \<Rightarrow> 'o \<Rightarrow> error + pyval) option \<Rightarrow> (pyval \<Rightarrow> 'd \<Rightarrow> error + 'c) \<Rightarrow> 'd \<Rightarrow> pyval \<Rightarrow> 'o
     \<Rightarrow> error + 'c value" where
  "pre_init super_pre_init decode condition_definitions v obj =
     (case super_pre_init of
        None \<Rightarrow> Inl (no_attribute ''pre_init'')
      | Some inherited \<Rightarrow>
          (case inherited v obj of
             Inl e \<Rightarrow> Inl e
           | Inr v' \<Rightarrow>
               if isinstance_dict v' then
                 (case decode v' condition_definitions of
                    Inl e \<Rightarrow> Inl e
                  | Inr t \<Rightarrow> Inr (CondList t))
               else Inr (Plain v')))"


definition get_db_prep_value ::
  "('c \<Rightarrow> pyval) \<Rightarrow> (pyval \<Rightarrow> 'conn \<Rightarrow> bool \<Rightarrow> 'r) \<Rightarrow> 'c value \<Rightarrow> 'conn \<Rightarrow> bool
     \<Rightarrow> 'r \<times> 'c call list" where
  "get_db_prep_value encode super_get_db_prep_value v connection prepared =
     (case v of
        CondList c \<Rightarrow>
          (super_get_db_prep_value (encode c) connection prepared,
           [Call_encode c, Call_super (encode c)])
      | Plain p \<Rightarrow> (super_get_db_prep_value p connection prepared, [Call_super p]))"


text \<open>
  Neither \<^verbatim>\<open>pre_init\<close> nor \<^verbatim>\<open>dumps_for_display\<close> is defined by a class that follows
  \<^verbatim>\<open>BaseConditionField\<close> in the method resolution order of \<^verbatim>\<open>ConditionsField\<close> or of
  \<^verbatim>\<open>JSONBConditionsField\<close>: \<^verbatim>\<open>TextJSONField\<close> above defines neither, and Django's model
  \<^verbatim>\<open>Field\<close> and its postgres \<^verbatim>\<open>JSONField\<close> define neither. For these classes the
  inherited method is \<open>None\<close>.
\<close>

definition ConditionsField_pre_init ::
  "(pyval \<Rightarrow> 'd \<Rightarrow> error + 'c) \<Rightarrow> 'd \<Rightarrow> pyval \<Rightarrow> 'o \<Rightarrow> error + 'c value" where
  "ConditionsField_pre_init decode condition_definitions v obj =
     pre_init None decode condition_definitions v obj"


section \<open>JSONWidget and ConditionsWidget\<close>

text \<open>
  \<^verbatim>\<open>JSONWidget.render\<close> (widgets.py). \<open>dumps2\<close> is \<^verbatim>\<open>json.dumps\<close> with the widget's fixed
  settings, \<open>textarea_render\<close> the \<^verbatim>\<open>render\<close> of Django's \<^verbatim>\<open>Textarea\<close>.
\<close>

definition JSONWidget_render ::
  "(pyval \<Rightarrow> error + string) \<Rightarrow> (string \<Rightarrow> pyval \<Rightarrow> 'a \<Rightarrow> 'h) \<Rightarrow> string \<Rightarrow> pyval \<Rightarrow> 'a
     \<Rightarrow> error + 'h" where
  "JSONWidget_render dumps2 textarea_render name v attrs =
     (let v1 = (if v = PNone then PStr '''' else v) in
      if \<not> isinstance_str v1 then
        (case dumps2 v1 of
           Inl e \<Rightarrow> Inl e
         | Inr s \<Rightarrow> Inr (textarea_render name (PStr s) attrs))
      else Inr (textarea_render name v1 attrs))"

text \<open>
  A condition class as \<^verbatim>\<open>render\<close> reads it. \<open>cls_compare\<close> is \<open>Some (operators,
  operand_example)\<close> exactly when the class is a subclass of \<^verbatim>\<open>CompareCondition\<close>;
  \<open>operators\<close> is the ordered mapping returned by \<^verbatim>\<open>operators()\<close>.
\<close>

record 'f Condition =
  cls_key_required :: bool
  cls_keys_allowed :: "string list"
  cls_key_example :: string
  cls_help_text :: string
  cls_full_description :: string
  cls_compare :: "((string \<times> 'f) list \<times> string) option"

text \<open>The dictionary built for one condition, with the keys of the source.\<close>

record entry =
  condstr :: string
  key_required :: string
  keys_allowed :: "string list"
  key_example :: string
  operator_required :: string
  operators :: "string list"
  operand_example :: string
  help_text :: string
  description :: string

record group_entry =
  groupname :: string
  conditions :: "entry list"

record 'h render_context =
  textarea :: 'h
  condition_groups :: "group_entry list"

definition condition_entry :: "string \<Rightarrow> 'f Condition \<Rightarrow> entry" where
  "condition_entry cs condition =
     \<lparr> condstr = cs,
       key_required = (if cls_key_required condition then ''true'' else ''false''),
       keys_allowed = cls_keys_allowed condition,
       key_example = cls_key_example condition,
       operator_required = (if cls_compare condition \<noteq> None then ''true'' else ''false''),
       operators = (case cls_compare condition of Some (ops, ex) \<Rightarrow> map fst ops | None \<Rightarrow> []),
       operand_example = (case cls_compare condition of Some (ops, ex) \<Rightarrow> ex | None \<Rightarrow> ''''),
       help_text = cls_help_text condition,
       description = cls_full_description condition \<rparr>"

text \<open>
  The two nested loops of \<^verbatim>\<open>render\<close> over \<^verbatim>\<open>condition_definitions.items()\<close>, a
  dictionary in insertion order, and the two calls of \<^verbatim>\<open>sorted\<close> (a stable sort by key).
\<close>

definition conditions_in_group :: "(string \<times> 'f Condition) list \<Rightarrow> entry list" where
  "conditions_in_group grp =
     sort_key condstr (map (\<lambda>(cs, condition). condition_entry cs condition) grp)"

definition build_condition_groups ::
  "(string \<times> (string \<times> 'f Condition) list) list \<Rightarrow> group_entry list" where
  "build_condition_groups condition_definitions =
     sort_key groupname
       (map (\<lambda>(gn, grp). \<lparr> groupname = gn, conditions = conditions_in_group grp \<rparr>)
          condition_definitions)"

definition render ::
  "('c \<Rightarrow> pyval) \<Rightarrow> (pyval \<Rightarrow> error + string) \<Rightarrow> (string \<Rightarrow> pyval \<Rightarrow> 'a \<Rightarrow> 'h)
     \<Rightarrow> ('h render_context \<Rightarrow> 'm) \<Rightarrow> (string \<times> (string \<times> 'f Condition) list) list
     \<Rightarrow> string \<Rightarrow> 'c value \<Rightarrow> 'a \<Rightarrow> (error + 'm) \<times> 'c call list" where
  "render encode dumps2 textarea_render render_to_string condition_definitions name v attrs =
     (let (v1, calls) = (case v of
                           CondList c \<Rightarrow> (encode c, [Call_encode c, Call_super (encode c)])
                         | Plain p \<Rightarrow> (p, [Call_super p]))
      in case JSONWidget_render dumps2 textarea_render name v1 attrs of
           Inl e \<Rightarrow> (Inl e, calls)
         | Inr ta \<Rightarrow>
             (Inr (render_to_string
                     \<lparr> textarea = ta,
                       condition_groups = build_condition_groups condition_definitions \<rparr>),
              calls))"

section \<open>The conditions engine\<close>

text \<open>
  \<^verbatim>\<open>CondList\<close> and its \<^verbatim>\<open>decode\<close>, \<^verbatim>\<open>encode\<close> and evaluation live in
  \<^verbatim>\<open>conditions/lists.py\<close> and \<^verbatim>\<open>conditions/conditions.py\<close>, which the field layer above
  only imports. The definitions of this section follow sections 3, 4 and 8 of the
  specification instead.
\<close>

text \<open>Modelled from the spec: the group operator of a \<^verbatim>\<open>Group\<close> node (section 3), absent
  with \<^verbatim>\<open>lists.py\<close>.\<close>

datatype bool_op = AND | OR

text \<open>Modelled from the spec: the \<^verbatim>\<open>TreeNode\<close> tagged union of section 3, absent with
  \<^verbatim>\<open>lists.py\<close>: a leaf carries \<open>condstr\<close>, \<open>key\<close>, \<open>operator\<close> and \<open>operand\<close>, a group
  its operator and its children in order. A \<^verbatim>\<open>CondList\<close> owns one root node.\<close>

datatype tree =
    Leaf string "string option" "string option" "pyval option"
  | Group bool_op "tree list"

text \<open>Modelled from the spec: the registry of section 3, group name to condition
  identifier to kind, absent with \<^verbatim>\<open>conditions.py\<close>. It is the mapping the field layer
  passes as \<^verbatim>\<open>condition_definitions\<close>.\<close>

type_synonym 'f registry = "(string \<times> (string \<times> 'f Condition) list) list"

text \<open>Modelled from the spec: \<^verbatim>\<open>Registry.lookup\<close> (sections 4.1 and 9), absent with
  \<^verbatim>\<open>lists.py\<close>: a leaf's kind is resolved by \<open>condstr\<close> alone across the groups, with a
  "not found" result instead of a fault.\<close>

fun lookup :: "'f registry \<Rightarrow> string \<Rightarrow> 'f Condition option" where
  "lookup [] cs = None"
| "lookup ((gn, grp) # rest) cs =
     (case map_of grp cs of Some kind \<Rightarrow> Some kind | None \<Rightarrow> lookup rest cs)"

text \<open>Modelled from the spec: the \<^verbatim>\<open>op\<close> discriminator of the stored form, absent with
  \<^verbatim>\<open>lists.py\<close>, spelled as in the end-to-end example of section 8
  (\<^verbatim>\<open>{"op":"or","conditions":[...]}\<close>).\<close>

fun op_token :: "bool_op \<Rightarrow> string" where
  "op_token AND = ''and''"
| "op_token OR = ''or''"

text \<open>Modelled from the spec: reading the \<^verbatim>\<open>op\<close> discriminator back (section 4.3,
  step 2), absent with \<^verbatim>\<open>lists.py\<close>.\<close>

definition op_of_token :: "string \<Rightarrow> bool_op option" where
  "op_of_token tok =
     (if tok = ''and'' then Some AND else if tok = ''or'' then Some OR else None)"

text \<open>Modelled from the spec: step 2 of decode (section 4.3), absent with \<^verbatim>\<open>lists.py\<close>:
  a node is a group when it has an \<^verbatim>\<open>op\<close> among AND and OR and a \<^verbatim>\<open>conditions\<close>
  sequence.\<close>

definition group_shape :: "(string \<times> pyval) list \<Rightarrow> (bool_op \<times> pyval list) option" where
  "group_shape kvs =
     (case map_of kvs ''op'' of
        Some (PStr tok) \<Rightarrow>
          (case op_of_token tok of
             Some bop \<Rightarrow>
               (case map_of kvs ''conditions'' of
                  Some (PList cs) \<Rightarrow> Some (bop, cs)
                | _ \<Rightarrow> None)
           | None \<Rightarrow> None)
      | _ \<Rightarrow> None)"

text \<open>Modelled from the spec: step 2 of decode (section 4.3), absent with \<^verbatim>\<open>lists.py\<close>:
  a node is a leaf when it has a \<^verbatim>\<open>condition\<close> identifier.\<close>

definition leaf_shape :: "(string \<times> pyval) list \<Rightarrow> string option" where
  "leaf_shape kvs = (case map_of kvs ''condition'' of Some (PStr cs) \<Rightarrow> Some cs | _ \<Rightarrow> None)"

text \<open>Modelled from the spec: reading the optional \<^verbatim>\<open>key\<close> and \<^verbatim>\<open>operator\<close> of a leaf
  (section 3: both are optional strings), absent with \<^verbatim>\<open>lists.py\<close>; a value that is
  not a string is an invalid field (section 7).\<close>

definition string_field ::
  "(string \<times> pyval) list \<Rightarrow> string \<Rightarrow> string \<Rightarrow> error + string option" where
  "string_field kvs name cs =
     (case map_of kvs name of
        None \<Rightarrow> Inr None
      | Some (PStr s) \<Rightarrow> Inr (Some s)
      | Some v \<Rightarrow> Inl (InvalidConditionError (''invalid '' @ name @ '' for '' @ cs)))"

text \<open>Modelled from the spec: invariants 2 to 4 of section 3, checked for a leaf
  against its resolved kind (section 4.3, step 3), absent with \<^verbatim>\<open>lists.py\<close>.\<close>

definition check_leaf ::
  "'f Condition \<Rightarrow> string \<Rightarrow> string option \<Rightarrow> string option \<Rightarrow> pyval option \<Rightarrow> error + tree" where
  "check_leaf kind cs key operator operand =
     (if cls_key_required kind \<and> key = None then
        Inl (InvalidConditionError (''missing key for '' @ cs))
      else if cls_keys_allowed kind \<noteq> [] \<and> key \<notin> Some ` set (cls_keys_allowed kind) then
        Inl (InvalidConditionError (''invalid key for '' @ cs))
      else
        (case cls_compare kind of
           Some (ops, ex) \<Rightarrow>
             (if operator = None then
                Inl (InvalidConditionError (''missing operator for '' @ cs))
              else if operator \<notin> Some ` fst ` set ops then
                Inl (InvalidConditionError (''invalid operator for '' @ cs))
              else if operand = None then
                Inl (InvalidConditionError (''missing operand for '' @ cs))
              else Inr (Leaf cs key operator operand))
         | None \<Rightarrow>
             (if operator \<noteq> None then
                Inl (InvalidConditionError (''invalid operator for '' @ cs))
              else if operand \<noteq> None then
                Inl (InvalidConditionError (''invalid operand for '' @ cs))
              else Inr (Leaf cs key operator operand))))"

text \<open>Modelled from the spec: step 3 of decode (section 4.3), absent with \<^verbatim>\<open>lists.py\<close>:
  resolve \<open>condstr\<close>, fail naming the unknown identifier, then check the leaf.\<close>

definition decode_leaf ::
  "'f registry \<Rightarrow> (string \<times> pyval) list \<Rightarrow> string \<Rightarrow> error + tree" where
  "decode_leaf reg kvs cs =
     (case lookup reg cs of
        None \<Rightarrow> Inl (InvalidConditionError (''unknown condition '' @ cs))
      | Some kind \<Rightarrow>
          (case string_field kvs ''key'' cs of
             Inl e \<Rightarrow> Inl e
           | Inr key \<Rightarrow>
               (case string_field kvs ''operator'' cs of
                  Inl e \<Rightarrow> Inl e
                | Inr operator \<Rightarrow> check_leaf kind cs key operator (map_of kvs ''value''))))"

lemma size_map_of:
  "map_of kvs k = Some v \<Longrightarrow> size v < Suc (size_list (size_prod (\<lambda>_. 0) size) kvs)"
  by (induction kvs) (auto split: if_splits)

lemma size_group_shape:
  "group_shape kvs = Some (bop, cs) \<Longrightarrow> size_list size cs < size (PDict kvs)"
  by (auto simp: group_shape_def split: option.splits pyval.splits dest!: size_map_of)

text \<open>Modelled from the spec: \<^verbatim>\<open>CondList.decode\<close> on the parsed JSON value (section 4.3,
  steps 2 to 5), absent with \<^verbatim>\<open>lists.py\<close>: a group fails when its children are empty
  and otherwise decodes each child in order; the first failure is the result, so no
  partial tree is returned.\<close>

function decode :: "pyval \<Rightarrow> 'f registry \<Rightarrow> error + tree"
  and decode_children :: "pyval list \<Rightarrow> 'f registry \<Rightarrow> error + tree list" where
  "decode (PDict kvs) reg =
     (case group_shape kvs of
        Some (bop, cs) \<Rightarrow>
          (if cs = [] then Inl (InvalidConditionError ''empty group'')
           else (case decode_children cs reg of
                   Inl e \<Rightarrow> Inl e
                 | Inr ts \<Rightarrow> Inr (Group bop ts)))
      | None \<Rightarrow>
          (case leaf_shape kvs of
             Some cs \<Rightarrow> decode_leaf reg kvs cs
           | None \<Rightarrow> Inl (MalformedInput ''neither a condition nor a group'')))"
| "decode PNone reg = Inl (MalformedInput ''neither a condition nor a group'')"
| "decode (PBool b) reg = Inl (MalformedInput ''neither a condition nor a group'')"
| "decode (PInt i) reg = Inl (MalformedInput ''neither a condition nor a group'')"
| "decode (PStr s) reg = Inl (MalformedInput ''neither a condition nor a group'')"
| "decode (PList xs) reg = Inl (MalformedInput ''neither a condition nor a group'')"
| "decode (PTuple xs) reg = Inl (MalformedInput ''neither a condition nor a group'')"
| "decode_children [] reg = Inr []"
| "decode_children (c # cs) reg =
     (case decode c reg of
        Inl e \<Rightarrow> Inl e
      | Inr t \<Rightarrow>
          (case decode_children cs reg of
             Inl e \<Rightarrow> Inl e
           | Inr ts \<Rightarrow> Inr (t # ts)))"
  by pat_completeness auto
termination
  by (relation "measure (\<lambda>x. case x of Inl (v, _) \<Rightarrow> size v | Inr (vs, _) \<Rightarrow> size_list size vs)")
     (auto dest: size_group_shape)

text \<open>Modelled from the spec: \<^verbatim>\<open>CondList.encode\<close> (section 4.4), absent with \<^verbatim>\<open>lists.py\<close>:
  the fixed field names condition, key, operator, value for a leaf and op, conditions
  for a group; no validation.\<close>

fun encode :: "tree \<Rightarrow> pyval" where
  "encode (Leaf cs key operator operand) =
     PDict ([(''condition'', PStr cs)]
            @ (case key of Some k \<Rightarrow> [(''key'', PStr k)] | None \<Rightarrow> [])
            @ (case operator of Some opr \<Rightarrow> [(''operator'', PStr opr)] | None \<Rightarrow> [])
            @ (case operand of Some v \<Rightarrow> [(''value'', v)] | None \<Rightarrow> []))"
| "encode (Group bop ts) =
     PDict [(''op'', PStr (op_token bop)), (''conditions'', PList (map encode ts))]"

text \<open>Modelled from the spec: invariants 1 to 5 of section 3 as a predicate on trees,
  absent with \<^verbatim>\<open>lists.py\<close>.\<close>

fun satisfies_invariants :: "'f registry \<Rightarrow> tree \<Rightarrow> bool" where
  "satisfies_invariants reg (Leaf cs key operator operand) =
     (case lookup reg cs of
        None \<Rightarrow> False
      | Some kind \<Rightarrow> check_leaf kind cs key operator operand = Inr (Leaf cs key operator operand))"
| "satisfies_invariants reg (Group bop ts) = (ts \<noteq> [] \<and> list_all (satisfies_invariants reg) ts)"

text \<open>Modelled from the spec: the evaluator of section 4.5, absent with \<^verbatim>\<open>lists.py\<close>.
  \<open>predicate\<close> is the resolved kind's predicate applied to a leaf and the context.
  Beside the boolean, the result lists the nodes evaluated, in order, which makes
  "is never evaluated" a statement about the result. Children are taken in their
  declared order; an AND group stops at the first false child, an OR group at the
  first true one.\<close>

fun evaluate :: "(tree \<Rightarrow> 'x \<Rightarrow> bool) \<Rightarrow> tree \<Rightarrow> 'x \<Rightarrow> bool \<times> tree list"
  and evaluate_and :: "(tree \<Rightarrow> 'x \<Rightarrow> bool) \<Rightarrow> tree list \<Rightarrow> 'x \<Rightarrow> bool \<times> tree list"
  and evaluate_or :: "(tree \<Rightarrow> 'x \<Rightarrow> bool) \<Rightarrow> tree list \<Rightarrow> 'x \<Rightarrow> bool \<times> tree list" where
  "evaluate predicate (Leaf cs key operator operand) ctx =
     (predicate (Leaf cs key operator operand) ctx, [Leaf cs key operator operand])"
| "evaluate predicate (Group AND ts) ctx =
     (case evaluate_and predicate ts ctx of (b, tr) \<Rightarrow> (b, Group AND ts # tr))"
| "evaluate predicate (Group OR ts) ctx =
     (case evaluate_or predicate ts ctx of (b, tr) \<Rightarrow> (b, Group OR ts # tr))"
| "evaluate_and predicate [] ctx = (True, [])"
| "evaluate_and predicate (t # ts) ctx =
     (case evaluate predicate t ctx of
        (False, tr) \<Rightarrow> (False, tr)
      | (True, tr) \<Rightarrow> (case evaluate_and predicate ts ctx of (b, tr') \<Rightarrow> (b, tr @ tr')))"
| "evaluate_or predicate [] ctx = (False, [])"
| "evaluate_or predicate (t # ts) ctx =
     (case evaluate predicate t ctx of
        (True, tr) \<Rightarrow> (True, tr)
      | (False, tr) \<Rightarrow> (case evaluate_or predicate ts ctx of (b, tr') \<Rightarrow> (b, tr @ tr')))"

text \<open>Modelled from the spec: the two condition kinds and the registry of the
  end-to-end examples of section 8, absent with \<^verbatim>\<open>conditions.py\<close>: group \<^verbatim>\<open>basic\<close> holds
  \<^verbatim>\<open>always_true\<close> (no key required, not a compare kind), group \<^verbatim>\<open>cmp\<close> holds \<^verbatim>\<open>age\<close>
  (a compare kind with the operators \<^verbatim>\<open>eq\<close> and \<^verbatim>\<open>gt\<close>, each a function of the operand
  and the value).\<close>

definition always_true_kind :: "(pyval \<Rightarrow> pyval \<Rightarrow> bool) Condition" where
  "always_true_kind =
     \<lparr> cls_key_required = False, cls_keys_allowed = [], cls_key_example = '''',
       cls_help_text = ''Always true'', cls_full_description = ''always_true: Always true'',
       cls_compare = None \<rparr>"

definition age_kind :: "(pyval \<Rightarrow> pyval \<Rightarrow> bool) Condition" where
  "age_kind =
     \<lparr> cls_key_required = False, cls_keys_allowed = [], cls_key_example = '''',
       cls_help_text = ''Age of the user'', cls_full_description = ''age: Age of the user'',
       cls_compare =
         Some ([(''eq'', \<lambda>operand v. v = operand),
                (''gt'', \<lambda>operand v. case (v, operand) of
                                       (PInt a, PInt b) \<Rightarrow> b < a
                                     | _ \<Rightarrow> False)],
               ''18'') \<rparr>"

definition example_registry :: "(pyval \<Rightarrow> pyval \<Rightarrow> bool) registry" where
  "example_registry =
     [(''basic'', [(''always_true'', always_true_kind)]), (''cmp'', [(''age'', age_kind)])]"

section \<open>Properties of the field layer\<close>

text \<open>
  C9: \<^verbatim>\<open>TextJSONField.get_prep_value\<close> maps None to the empty string when the field is
  non-null and blank and to None otherwise, and maps every other value to its
  serialization by \<^verbatim>\<open>json.dumps\<close> under the field's encoder settings (an error of
  \<^verbatim>\<open>json.dumps\<close> propagates).
\<close>

theorem get_prep_value_cases:
  "get_prep_value dumps self PNone
     = (if \<not> field_null self \<and> field_blank self then Inr (PStr '''') else Inr PNone)
   \<and> (v \<noteq> PNone \<longrightarrow>
        get_prep_value dumps self v
          = (case dumps (encoder_kwargs self) v of Inl e \<Rightarrow> Inl e | Inr s \<Rightarrow> Inr (PStr s)))"
  by (simp add: get_prep_value_def)

theorem get_prep_value_cases_witness:
  "PDict [] \<noteq> PNone
   \<and> get_prep_value (\<lambda>k v. Inr ''{}'')
        \<lparr> field_null = False, field_blank = True, encoder_kwargs = () \<rparr> (PDict [])
       = Inr (PStr ''{}'')
   \<and> get_prep_value (\<lambda>k v. Inr ''{}'')
        \<lparr> field_null = False, field_blank = True, encoder_kwargs = () \<rparr> PNone
       = Inr (PStr '''')
   \<and> get_prep_value (\<lambda>k v. Inr ''{}'')
        \<lparr> field_null = True, field_blank = True, encoder_kwargs = () \<rparr> PNone
       = Inr PNone"
  using get_prep_value_cases
          [where dumps = "\<lambda>k v. Inr ''{}''" and v = "PDict []"
             and self = "\<lparr> field_null = False, field_blank = True, encoder_kwargs = () \<rparr>"]
        get_prep_value_cases
          [where dumps = "\<lambda>k v. Inr ''{}''" and v = "PDict []"
             and self = "\<lparr> field_null = True, field_blank = True, encoder_kwargs = () \<rparr>"]
  by simp

text \<open>
  C10: \<^verbatim>\<open>TextJSONField.get_prep_lookup\<close> returns the value unchanged for the lookup
  types exact, iexact, in and isnull, raises TypeError for every lookup type outside
  exact, iexact, in, isnull, contains, icontains, and for contains and icontains raises
  TypeError when the argument is a list or a tuple.
\<close>

theorem get_prep_lookup_cases:
  "(\<forall>lookup_type \<in> {''exact'', ''iexact'', ''in'', ''isnull''}.
      get_prep_lookup repr dumps self lookup_type v = Inr v)
   \<and> (\<forall>lookup_type.
        lookup_type \<notin> {''exact'', ''iexact'', ''in'', ''isnull'', ''contains'', ''icontains''}
        \<longrightarrow> get_prep_lookup repr dumps self lookup_type v
              = Inl (TypeError (''Lookup type '' @ repr lookup_type @ '' not supported'')))
   \<and> (\<forall>lookup_type \<in> {''contains'', ''icontains''}. \<forall>xs.
        get_prep_lookup repr dumps self lookup_type (PList xs)
          = Inl (TypeError (''Lookup type '' @ repr lookup_type
                   @ '' not supported with argument of list''))
      \<and> get_prep_lookup repr dumps self lookup_type (PTuple xs)
          = Inl (TypeError (''Lookup type '' @ repr lookup_type
                   @ '' not supported with argument of tuple'')))"
  by (simp add: get_prep_lookup_def)

theorem get_prep_lookup_cases_witness:
  "get_prep_lookup (\<lambda>s. CHR 0x27 # s @ [CHR 0x27]) (\<lambda>k v. Inr ''[]'')
      \<lparr> field_null = False, field_blank = True, encoder_kwargs = () \<rparr> ''isnull'' (PBool True)
     = Inr (PBool True)
   \<and> get_prep_lookup (\<lambda>s. CHR 0x27 # s @ [CHR 0x27]) (\<lambda>k v. Inr ''[]'')
      \<lparr> field_null = False, field_blank = True, encoder_kwargs = () \<rparr> ''regex'' (PBool True)
     = Inl (TypeError (''Lookup type '' @ CHR 0x27 # ''regex'' @ [CHR 0x27] @ '' not supported''))
   \<and> get_prep_lookup (\<lambda>s. CHR 0x27 # s @ [CHR 0x27]) (\<lambda>k v. Inr ''[]'')
      \<lparr> field_null = False, field_blank = True, encoder_kwargs = () \<rparr> ''contains''
      (PList [PInt 1])
     = Inl (TypeError (''Lookup type '' @ CHR 0x27 # ''contains'' @ [CHR 0x27]
              @ '' not supported with argument of list''))"
  using get_prep_lookup_cases
          [where repr = "\<lambda>s. CHR 0x27 # s @ [CHR 0x27]" and dumps = "\<lambda>k v. Inr ''[]''"
             and self = "\<lparr> field_null = False, field_blank = True, encoder_kwargs = () \<rparr>"
             and v = "PBool True"]
  by simp

text \<open>
  C2 (as stated) fails: the inherited \<^verbatim>\<open>clean\<close> is called outside the \<^verbatim>\<open>try\<close>, so a
  ValidationError that it raises is the result of \<^verbatim>\<open>ConditionsFormField.clean\<close> although
  \<^verbatim>\<open>CondList.decode\<close> raised nothing: it was not called.
\<close>

theorem clean_validation_error_iff_counterexample:
  "clean (\<lambda>v. Inl (ValidationError ''JSON decode error''))
      (\<lambda>j d. Inr () :: error + unit) () (PStr ''{oops'')
     = (Inl (ValidationError ''JSON decode error''), [Call_super (PStr ''{oops'')])"
  by (simp add: clean_def)

text \<open>
  C2 (amended): when the inherited \<^verbatim>\<open>clean\<close> has returned a cleaned JSON value other than
  None, the result of \<^verbatim>\<open>ConditionsFormField.clean\<close> is decided by \<^verbatim>\<open>CondList.decode\<close> of
  that value: an InvalidConditionError becomes a ValidationError whose message embeds
  its diagnostic, any other error of decode propagates, and on success the cleaned JSON
  is returned unchanged. Hence, decode raising no ValidationError of its own, \<^verbatim>\<open>clean\<close>
  raises a ValidationError if and only if decode raises InvalidConditionError.
\<close>

theorem clean_validation_error_iff:
  assumes "super_clean v = Inr cleaned_json" and "cleaned_json \<noteq> PNone"
  shows "fst (clean super_clean dec defs v)
           = (case dec cleaned_json defs of
                Inl (InvalidConditionError m) \<Rightarrow>
                  Inl (ValidationError (''Invalid conditions JSON: '' @ m))
              | Inl e \<Rightarrow> Inl e
              | Inr t \<Rightarrow> Inr cleaned_json)
         \<and> ((\<forall>m. dec cleaned_json defs \<noteq> Inl (ValidationError m)) \<longrightarrow>
              ((\<exists>m. fst (clean super_clean dec defs v) = Inl (ValidationError m))
                 \<longleftrightarrow> (\<exists>m. dec cleaned_json defs = Inl (InvalidConditionError m))))
         \<and> (\<forall>m. dec cleaned_json defs = Inl (InvalidConditionError m) \<longrightarrow>
               fst (clean super_clean dec defs v)
                 = Inl (ValidationError (''Invalid conditions JSON: '' @ m)))
         \<and> (\<forall>t. dec cleaned_json defs = Inr t \<longrightarrow>
               fst (clean super_clean dec defs v) = Inr cleaned_json)"
  using assms by (auto simp: clean_def split: sum.splits error.splits)

theorem clean_validation_error_iff_witness:
  "fst (clean (\<lambda>v. Inr (PDict [(''condition'', PStr ''nope'')]))
          (\<lambda>j d. Inl (InvalidConditionError ''unknown condition nope'') :: error + unit)
          () (PStr ''raw''))
     = Inl (ValidationError ''Invalid conditions JSON: unknown condition nope'')
   \<and> fst (clean (\<lambda>v. Inr (PDict [(''condition'', PStr ''fine'')]))
          (\<lambda>j d. Inr () :: error + unit) () (PStr ''raw''))
     = Inr (PDict [(''condition'', PStr ''fine'')])"
  using clean_validation_error_iff
          [where super_clean = "\<lambda>v. Inr (PDict [(''condition'', PStr ''nope'')])"
             and dec = "\<lambda>j d. Inl (InvalidConditionError ''unknown condition nope'') :: error + unit"
             and defs = "()" and v = "PStr ''raw''"
             and cleaned_json = "PDict [(''condition'', PStr ''nope'')]"]
        clean_validation_error_iff
          [where super_clean = "\<lambda>v. Inr (PDict [(''condition'', PStr ''fine'')])"
             and dec = "\<lambda>j d. Inr () :: error + unit"
             and defs = "()" and v = "PStr ''raw''"
             and cleaned_json = "PDict [(''condition'', PStr ''fine'')]"]
  by simp



text \<open>
  C8: if the inherited \<^verbatim>\<open>clean\<close> returns None, \<^verbatim>\<open>ConditionsFormField.clean\<close> returns
  None; the only call made is the inherited \<^verbatim>\<open>clean\<close>, so \<^verbatim>\<open>CondList.decode\<close> is not
  invoked and nothing is raised.
\<close>

theorem clean_none_skips_decode:
  "super_clean v = Inr PNone \<Longrightarrow>
     clean super_clean dec defs v = (Inr PNone, [Call_super v])"
  by (simp add: clean_def)

theorem clean_none_skips_decode_witness:
  "clean (\<lambda>v. Inr PNone) (\<lambda>j d. Inl (InvalidConditionError ''never'') :: error + unit)
      () (PStr '''')
     = (Inr PNone, [Call_super (PStr '''')])"
  using clean_none_skips_decode
          [where super_clean = "\<lambda>v. Inr PNone"
             and dec = "\<lambda>j d. Inl (InvalidConditionError ''never'') :: error + unit"
             and defs = "()" and v = "PStr ''''"]
  by simp



section \<open>The reference surface built by the widget\<close>

lemma sorted_conditions_in_group: "sorted (map condstr (conditions_in_group grp))"
  by (simp add: conditions_in_group_def)

lemma condstr_conditions_in_group:
  "mset (map condstr (conditions_in_group grp)) = mset (map fst grp)"
proof -
  have "map condstr (map (\<lambda>(cs, condition). condition_entry cs condition) grp) = map fst grp"
    by (induction grp) (auto simp: condition_entry_def)
  then have "mset (map fst grp)
      = image_mset condstr (mset (map (\<lambda>(cs, condition). condition_entry cs condition) grp))"
    by (metis mset_map)
  then show ?thesis
    by (simp add: conditions_in_group_def)
qed

lemma groupname_build_condition_groups:
  "mset (map groupname (build_condition_groups defs)) = mset (map fst defs)"
proof -
  have "map groupname
          (map (\<lambda>(gn, grp). \<lparr> groupname = gn, conditions = conditions_in_group grp \<rparr>) defs)
        = map fst defs"
    by (induction defs) auto
  then have "mset (map fst defs)
      = image_mset groupname
          (mset (map (\<lambda>(gn, grp). \<lparr> groupname = gn, conditions = conditions_in_group grp \<rparr>)
                   defs))"
    by (metis mset_map)
  then show ?thesis
    by (simp add: build_condition_groups_def)
qed

lemma build_condition_groups_origin:
  assumes "g \<in> set (build_condition_groups defs)"
  shows "\<exists>grp. (groupname g, grp) \<in> set defs \<and> conditions g = conditions_in_group grp"
  using assms by (auto simp: build_condition_groups_def)

lemma condition_entry_in_groups:
  assumes "(gn, grp) \<in> set defs" and "(cs, condition) \<in> set grp"
  shows "\<exists>g \<in> set (build_condition_groups defs). groupname g = gn
           \<and> condition_entry cs condition \<in> set (conditions g)"
proof -
  let ?g = "\<lparr> groupname = gn, conditions = conditions_in_group grp \<rparr>"
  have "?g \<in> set (build_condition_groups defs)"
    using assms(1) by (force simp: build_condition_groups_def)
  moreover have "condition_entry cs condition \<in> set (conditions ?g)"
    using assms(2) by (force simp: conditions_in_group_def)
  ultimately show ?thesis by force
qed

lemma render_context:
  assumes "fst (render enc wdumps tr rts defs name v attrs) = Inr m"
  shows "\<exists>ta. m = rts \<lparr> textarea = ta, condition_groups = build_condition_groups defs \<rparr>"
  using assms by (cases v) (auto simp: render_def split: sum.splits)

text \<open>
  C3: whenever \<^verbatim>\<open>ConditionsWidget.render\<close> returns, what it returns is the template
  rendered on a context whose \<open>condition_groups\<close> are, for every content of the
  definitions: the groups of the definitions, each once, in ascending lexicographic
  order of their group name; and in each group the conditions of that group of the
  definitions, each once, in ascending lexicographic order of \<open>condstr\<close>.
\<close>

theorem render_groups_sorted:
  assumes "fst (render enc wdumps tr rts defs name v attrs) = Inr m"
  shows "(\<exists>ta. m = rts \<lparr> textarea = ta, condition_groups = build_condition_groups defs \<rparr>)
       \<and> sorted (map groupname (build_condition_groups defs))
       \<and> mset (map groupname (build_condition_groups defs)) = mset (map fst defs)
       \<and> (\<forall>g \<in> set (build_condition_groups defs).
            sorted (map condstr (conditions g))
          \<and> (\<exists>grp. (groupname g, grp) \<in> set defs
                \<and> mset (map condstr (conditions g)) = mset (map fst grp)))"
proof (intro conjI ballI)
  show "\<exists>ta. m = rts \<lparr> textarea = ta, condition_groups = build_condition_groups defs \<rparr>"
    using assms by (rule render_context)
  show "sorted (map groupname (build_condition_groups defs))"
    by (simp add: build_condition_groups_def)
  show "mset (map groupname (build_condition_groups defs)) = mset (map fst defs)"
    by (rule groupname_build_condition_groups)
next
  fix g assume "g \<in> set (build_condition_groups defs)"
  then obtain grp where grp: "(groupname g, grp) \<in> set defs"
      "conditions g = conditions_in_group grp"
    using build_condition_groups_origin by blast
  show "sorted (map condstr (conditions g))"
    by (simp add: grp(2) sorted_conditions_in_group)
  show "\<exists>grp. (groupname g, grp) \<in> set defs
          \<and> mset (map condstr (conditions g)) = mset (map fst grp)"
    using grp condstr_conditions_in_group by metis
qed

theorem render_groups_sorted_witness:
  "fst (render (\<lambda>c::unit. PNone) (\<lambda>v. Inr ''{}'') (\<lambda>name v (attrs::unit). v) (\<lambda>c. c)
          [(''cmp'', [(''age'', age_kind)]),
           (''basic'', [(''b'', always_true_kind), (''a'', always_true_kind)])]
          ''conditions'' (Plain PNone) ())
     = Inr \<lparr> textarea = PStr [],
             condition_groups =
               [\<lparr> groupname = ''basic'',
                  conditions = [condition_entry ''a'' always_true_kind,
                                condition_entry ''b'' always_true_kind] \<rparr>,
                \<lparr> groupname = ''cmp'', conditions = [condition_entry ''age'' age_kind] \<rparr>] \<rparr>
   \<and> \<lparr> groupname = ''basic'',
        conditions = [condition_entry ''a'' always_true_kind,
                      condition_entry ''b'' always_true_kind] \<rparr>
       \<in> set (build_condition_groups
                 [(''cmp'', [(''age'', age_kind)]),
                  (''basic'', [(''b'', always_true_kind), (''a'', always_true_kind)])])
   \<and> sorted [''basic'', ''cmp'']
   \<and> sorted (map condstr [condition_entry ''a'' always_true_kind,
                            condition_entry ''b'' always_true_kind])"
proof -
  let ?defs = "[(''cmp'', [(''age'', age_kind)]),
                (''basic'', [(''b'', always_true_kind), (''a'', always_true_kind)])]"
  let ?G = "[\<lparr> groupname = ''basic'',
               conditions = [condition_entry ''a'' always_true_kind,
                             condition_entry ''b'' always_true_kind] \<rparr>,
             \<lparr> groupname = ''cmp'', conditions = [condition_entry ''age'' age_kind] \<rparr>]"
  have v: "build_condition_groups ?defs = ?G"
    by (simp add: build_condition_groups_def conditions_in_group_def condition_entry_def)
  have h: "fst (render (\<lambda>c::unit. PNone) (\<lambda>v. Inr ''{}'') (\<lambda>name v (attrs::unit). v) (\<lambda>c. c)
                  ?defs ''conditions'' (Plain PNone) ())
             = Inr \<lparr> textarea = PStr [], condition_groups = ?G \<rparr>"
    by (simp add: render_def JSONWidget_render_def v)
  from render_groups_sorted [OF h] h show ?thesis
    unfolding v by simp
qed

text \<open>
  C5: whenever \<^verbatim>\<open>ConditionsWidget.render\<close> returns, what it returns is the template
  rendered on a context in which, for every condition kind of the definitions, the
  group of that name has an entry with the kind's \<open>condstr\<close>, \<open>key_required\<close>,
  \<open>keys_allowed\<close>, \<open>key_example\<close>, \<open>help_text\<close> and full description; for a compare kind
  it is marked so and carries the operator tokens, in their order, and the operand
  example; for any other kind the operator list is empty, the operand example is the
  empty string and \<open>operator_required\<close> is \<^verbatim>\<open>'false'\<close>. The entry has no other field.
\<close>

theorem render_entry_fields:
  assumes "fst (render enc wdumps tr rts defs name v attrs) = Inr m"
    and "(gn, grp) \<in> set defs" and "(cs, condition) \<in> set grp"
  shows "(\<exists>ta. m = rts \<lparr> textarea = ta, condition_groups = build_condition_groups defs \<rparr>)
       \<and> (\<exists>g \<in> set (build_condition_groups defs). groupname g = gn \<and>
           (\<exists>e \<in> set (conditions g).
              e = \<lparr> condstr = cs,
                    key_required = (if cls_key_required condition then ''true'' else ''false''),
                    keys_allowed = cls_keys_allowed condition,
                    key_example = cls_key_example condition,
                    operator_required = operator_required e,
                    operators = operators e,
                    operand_example = operand_example e,
                    help_text = cls_help_text condition,
                    description = cls_full_description condition \<rparr>
            \<and> (case cls_compare condition of
                  Some (ops, ex) \<Rightarrow>
                    operator_required e = ''true'' \<and> operators e = map fst ops
                  \<and> operand_example e = ex
                | None \<Rightarrow>
                    operator_required e = ''false'' \<and> operators e = []
                  \<and> operand_example e = [])))"
proof
  show "\<exists>ta. m = rts \<lparr> textarea = ta, condition_groups = build_condition_groups defs \<rparr>"
    using assms(1) by (rule render_context)
  obtain g where g: "g \<in> set (build_condition_groups defs)" "groupname g = gn"
      "condition_entry cs condition \<in> set (conditions g)"
    using condition_entry_in_groups [OF assms(2,3)] by blast
  show "\<exists>g \<in> set (build_condition_groups defs). groupname g = gn \<and>
           (\<exists>e \<in> set (conditions g).
              e = \<lparr> condstr = cs,
                    key_required = (if cls_key_required condition then ''true'' else ''false''),
                    keys_allowed = cls_keys_allowed condition,
                    key_example = cls_key_example condition,
                    operator_required = operator_required e,
                    operators = operators e,
                    operand_example = operand_example e,
                    help_text = cls_help_text condition,
                    description = cls_full_description condition \<rparr>
            \<and> (case cls_compare condition of
                  Some (ops, ex) \<Rightarrow>
                    operator_required e = ''true'' \<and> operators e = map fst ops
                  \<and> operand_example e = ex
                | None \<Rightarrow>
                    operator_required e = ''false'' \<and> operators e = []
                  \<and> operand_example e = []))"
    by (rule bexI [OF _ g(1)], rule conjI [OF g(2)], rule bexI [OF _ g(3)])
       (simp add: condition_entry_def split: option.splits)
qed

theorem render_entry_fields_witness:
  "fst (render (\<lambda>c::unit. PNone) (\<lambda>v. Inr ''{}'') (\<lambda>name v (attrs::unit). v) (\<lambda>c. c)
          example_registry ''conditions'' (Plain PNone) ())
     = Inr \<lparr> textarea = PStr [],
             condition_groups = build_condition_groups example_registry \<rparr>
   \<and> (''cmp'', [(''age'', age_kind)]) \<in> set example_registry
   \<and> (''age'', age_kind) \<in> set [(''age'', age_kind)]
   \<and> (''basic'', [(''always_true'', always_true_kind)]) \<in> set example_registry
   \<and> (''always_true'', always_true_kind) \<in> set [(''always_true'', always_true_kind)]
   \<and> (\<exists>g. g \<in> set (build_condition_groups example_registry) \<and> groupname g = ''cmp'' \<and>
        (\<exists>e. e \<in> set (conditions g) \<and> condstr e = ''age'' \<and> key_required e = ''false''
           \<and> operator_required e = ''true'' \<and> operators e = [''eq'', ''gt'']
           \<and> operand_example e = ''18''))
   \<and> (\<exists>g. g \<in> set (build_condition_groups example_registry) \<and> groupname g = ''basic'' \<and>
        (\<exists>e. e \<in> set (conditions g) \<and> condstr e = ''always_true''
           \<and> operator_required e = ''false'' \<and> operators e = []
           \<and> operand_example e = []))"
proof -
  have h: "fst (render (\<lambda>c::unit. PNone) (\<lambda>v. Inr ''{}'') (\<lambda>name v (attrs::unit). v) (\<lambda>c. c)
                  example_registry ''conditions'' (Plain PNone) ())
             = Inr \<lparr> textarea = PStr [],
                     condition_groups = build_condition_groups example_registry \<rparr>"
    by (simp add: render_def JSONWidget_render_def)
  have m1: "(''cmp'', [(''age'', age_kind)]) \<in> set example_registry"
    and m2: "(''age'', age_kind) \<in> set [(''age'', age_kind)]"
    and m3: "(''basic'', [(''always_true'', always_true_kind)]) \<in> set example_registry"
    and m4: "(''always_true'', always_true_kind) \<in> set [(''always_true'', always_true_kind)]"
    by (simp_all add: example_registry_def)
  from render_entry_fields [OF h m1 m2]
  have a: "\<exists>g. g \<in> set (build_condition_groups example_registry) \<and> groupname g = ''cmp'' \<and>
        (\<exists>e. e \<in> set (conditions g) \<and> condstr e = ''age'' \<and> key_required e = ''false''
           \<and> operator_required e = ''true'' \<and> operators e = [''eq'', ''gt'']
           \<and> operand_example e = ''18'')"
    by (simp add: age_kind_def Bex_def) (metis entry.select_convs(1,2))
  from render_entry_fields [OF h m3 m4]
  have b: "\<exists>g. g \<in> set (build_condition_groups example_registry) \<and> groupname g = ''basic'' \<and>
        (\<exists>e. e \<in> set (conditions g) \<and> condstr e = ''always_true''
           \<and> operator_required e = ''false'' \<and> operators e = []
           \<and> operand_example e = [])"
    by (simp add: always_true_kind_def Bex_def) (metis entry.select_convs(1))
  from h m1 m2 m3 m4 a b show ?thesis by blast
qed

section \<open>Properties of the conditions engine\<close>

lemma check_leaf_result:
  "check_leaf kind cs key operator operand = Inr t \<Longrightarrow> t = Leaf cs key operator operand"
  by (auto simp: check_leaf_def split: if_splits option.splits)

lemma decode_leaf_invariants:
  assumes "decode_leaf reg kvs cs = Inr t"
  shows "satisfies_invariants reg t"
proof -
  from assms obtain kind key operator where
      k: "lookup reg cs = Some kind"
    and c: "check_leaf kind cs key operator (map_of kvs ''value'') = Inr t"
    by (auto simp: decode_leaf_def split: option.splits sum.splits)
  from c have "t = Leaf cs key operator (map_of kvs ''value'')"
    by (rule check_leaf_result)
  with k c show ?thesis by simp
qed

lemma decode_invariants:
  "decode j reg = Inr t \<Longrightarrow> satisfies_invariants reg t"
  "decode_children js reg = Inr ts \<Longrightarrow> list_all (satisfies_invariants reg) ts \<and> length ts = length js"
proof (induction j reg and js reg arbitrary: t and ts rule: decode_decode_children.induct)
  case (1 kvs reg)
  show ?case
  proof (cases "group_shape kvs")
    case None
    with "1.prems" show ?thesis
      by (auto split: option.splits dest: decode_leaf_invariants)
  next
    case (Some p)
    obtain bop cs where p: "p = (bop, cs)" by (cases p)
    show ?thesis
    proof (cases "cs = []")
      case True
      with Some p "1.prems" show ?thesis by simp
    next
      case False
      with Some p "1.prems" obtain us where us: "decode_children cs reg = Inr us" "t = Group bop us"
        by (auto split: sum.splits)
      from "1.IH" [OF Some p [symmetric] False us(1)]
      have "list_all (satisfies_invariants reg) us" "length us = length cs" by simp_all
      with False us(2) show ?thesis by auto
    qed
  qed
next
  case (9 c cs reg)
  from "9.prems" obtain u us where u: "decode c reg = Inr u" "decode_children cs reg = Inr us"
      "ts = u # us"
    by (auto split: sum.splits)
  from "9.IH"(1) [OF u(1)] "9.IH"(2) [OF u(1) u(2)] u(3) show ?case by simp
qed simp_all

lemma encode_leaf_decode:
  assumes "lookup reg cs = Some kind"
    and "check_leaf kind cs key operator operand = Inr (Leaf cs key operator operand)"
  shows "decode (encode (Leaf cs key operator operand)) reg = Inr (Leaf cs key operator operand)"
proof -
  let ?kvs = "[(''condition'', PStr cs)]
            @ (case key of Some k \<Rightarrow> [(''key'', PStr k)] | None \<Rightarrow> [])
            @ (case operator of Some opr \<Rightarrow> [(''operator'', PStr opr)] | None \<Rightarrow> [])
            @ (case operand of Some v \<Rightarrow> [(''value'', v)] | None \<Rightarrow> [])"
  have g: "group_shape ?kvs = None"
    by (simp add: group_shape_def split: option.splits)
  have l: "leaf_shape ?kvs = Some cs"
    by (simp add: leaf_shape_def)
  have k: "string_field ?kvs ''key'' cs = Inr key"
    by (simp add: string_field_def split: option.splits)
  have o: "string_field ?kvs ''operator'' cs = Inr operator"
    by (simp add: string_field_def split: option.splits)
  have v: "map_of ?kvs ''value'' = operand"
    by (simp split: option.splits)
  have "decode_leaf reg ?kvs cs = Inr (Leaf cs key operator operand)"
    unfolding decode_leaf_def assms(1) k o v using assms(2) by simp
  with g l show ?thesis by simp
qed

lemma encode_decode_invariants:
  "satisfies_invariants reg t \<Longrightarrow> decode (encode t) reg = Inr t"
proof (induction t)
  case (Leaf cs key operator operand)
  then obtain kind where "lookup reg cs = Some kind"
      "check_leaf kind cs key operator operand = Inr (Leaf cs key operator operand)"
    by (auto split: option.splits)
  then show ?case by (rule encode_leaf_decode)
next
  case (Group bop ts)
  have all: "list_all (satisfies_invariants reg) ts" and ne: "ts \<noteq> []"
    using Group.prems by simp_all
  have ch: "decode_children (map encode ts) reg = Inr ts"
    using Group.IH all by (induction ts) simp_all
  have gs: "group_shape [(''op'', PStr (op_token bop)), (''conditions'', PList (map encode ts))]
              = Some (bop, map encode ts)"
    by (cases bop) (simp_all add: group_shape_def op_of_token_def)
  show ?case using ne ch gs by simp
qed

lemma encode_then_decode:
  assumes "decode j reg = Inr t"
  shows "decode (encode t) reg = Inr t"
  using assms by (intro encode_decode_invariants decode_invariants(1))

text \<open>
  C1: the round-trip law holds of decode and encode, and \<^verbatim>\<open>get_db_prep_value\<close> does
  encode on store; but \<^verbatim>\<open>pre_init\<close>, which is to decode again on load, never reaches
  its call of \<^verbatim>\<open>CondList.decode\<close>. At the tree of the end-to-end examples: the tree is
  the result of a successful decode, decoding its encoding gives the tree back, the
  encoding is what \<^verbatim>\<open>get_db_prep_value\<close> hands on for storing, and \<^verbatim>\<open>pre_init\<close>, handed
  that encoding, raises the AttributeError of the missing inherited \<^verbatim>\<open>pre_init\<close> instead
  of returning the \<^verbatim>\<open>CondList\<close>.
\<close>

theorem pre_init_raises_before_decode:
  "decode (PDict [(''op'', PStr ''or''),
                  (''conditions'',
                   PList [PDict [(''condition'', PStr ''always_true'')],
                          PDict [(''condition'', PStr ''age''), (''operator'', PStr ''gt''),
                                 (''value'', PInt 18)]])])
      example_registry
     = Inr (Group OR [Leaf ''always_true'' None None None,
                      Leaf ''age'' None (Some ''gt'') (Some (PInt 18))])
   \<and> decode (encode (Group OR [Leaf ''always_true'' None None None,
                               Leaf ''age'' None (Some ''gt'') (Some (PInt 18))]))
      example_registry
     = Inr (Group OR [Leaf ''always_true'' None None None,
                      Leaf ''age'' None (Some ''gt'') (Some (PInt 18))])
   \<and> fst (get_db_prep_value encode (\<lambda>v (c::unit) (p::bool). v)
            (CondList (Group OR [Leaf ''always_true'' None None None,
                                 Leaf ''age'' None (Some ''gt'') (Some (PInt 18))])) () False)
     = encode (Group OR [Leaf ''always_true'' None None None,
                         Leaf ''age'' None (Some ''gt'') (Some (PInt 18))])
   \<and> ConditionsField_pre_init decode example_registry
        (encode (Group OR [Leaf ''always_true'' None None None,
                           Leaf ''age'' None (Some ''gt'') (Some (PInt 18))])) ()
     = Inl (no_attribute ''pre_init'')"
proof -
  let ?j = "PDict [(''op'', PStr ''or''),
                  (''conditions'',
                   PList [PDict [(''condition'', PStr ''always_true'')],
                          PDict [(''condition'', PStr ''age''), (''operator'', PStr ''gt''),
                                 (''value'', PInt 18)]])]"
  let ?t = "Group OR [Leaf ''always_true'' None None None,
                      Leaf ''age'' None (Some ''gt'') (Some (PInt 18))]"
  have h: "decode ?j example_registry = Inr ?t"
    by (simp add: group_shape_def leaf_shape_def op_of_token_def decode_leaf_def
          string_field_def check_leaf_def example_registry_def always_true_kind_def
          age_kind_def)
  have r: "decode (encode ?t) example_registry = Inr ?t"
    using h by (rule encode_then_decode)
  have s: "fst (get_db_prep_value encode (\<lambda>v (c::unit) (p::bool). v) (CondList ?t) () False)
             = encode ?t"
    by (simp add: get_db_prep_value_def)
  have p: "ConditionsField_pre_init decode example_registry (encode ?t) ()
             = Inl (no_attribute ''pre_init'')"
    by (simp add: ConditionsField_pre_init_def pre_init_def)
  from h r s p show ?thesis by blast
qed

lemma evaluate_and_all_true:
  "\<forall>t \<in> set ts. fst (evaluate P t ctx) \<Longrightarrow>
     evaluate_and P ts ctx = (True, concat (map (\<lambda>t. snd (evaluate P t ctx)) ts))"
  by (induction ts) (auto split: prod.splits bool.splits)

lemma evaluate_and_first_false:
  "\<forall>t \<in> set pre. fst (evaluate P t ctx) \<Longrightarrow> \<not> fst (evaluate P c ctx) \<Longrightarrow>
     evaluate_and P (pre @ c # post) ctx
       = (False, concat (map (\<lambda>t. snd (evaluate P t ctx)) (pre @ [c])))"
  by (induction pre) (auto split: prod.splits bool.splits)

lemma evaluate_or_all_false:
  "\<forall>t \<in> set ts. \<not> fst (evaluate P t ctx) \<Longrightarrow>
     evaluate_or P ts ctx = (False, concat (map (\<lambda>t. snd (evaluate P t ctx)) ts))"
  by (induction ts) (auto split: prod.splits bool.splits)

lemma evaluate_or_first_true:
  "\<forall>t \<in> set pre. \<not> fst (evaluate P t ctx) \<Longrightarrow> fst (evaluate P c ctx) \<Longrightarrow>
     evaluate_or P (pre @ c # post) ctx
       = (True, concat (map (\<lambda>t. snd (evaluate P t ctx)) (pre @ [c])))"
  by (induction pre) (auto split: prod.splits bool.splits)

lemma evaluate_and_value: "fst (evaluate_and P ts ctx) \<longleftrightarrow> (\<forall>t \<in> set ts. fst (evaluate P t ctx))"
  by (induction ts) (auto split: prod.splits bool.splits)

lemma evaluate_or_value: "fst (evaluate_or P ts ctx) \<longleftrightarrow> (\<exists>t \<in> set ts. fst (evaluate P t ctx))"
  by (induction ts) (auto split: prod.splits bool.splits)

text \<open>
  C7: evaluation of a group takes the children in their declared order and
  short-circuits. An AND group whose first false child is \<open>c\<close> returns false having
  evaluated exactly the children up to and including \<open>c\<close> (none of the later ones), and
  it returns true exactly when every child is true. An OR group whose first true child
  is \<open>c\<close> returns true having evaluated exactly the children up to and including \<open>c\<close>,
  and it returns false exactly when every child is false.
\<close>

theorem group_short_circuit:
  "((\<forall>t \<in> set pre. fst (evaluate P t ctx)) \<and> \<not> fst (evaluate P c ctx) \<longrightarrow>
      evaluate P (Group AND (pre @ c # post)) ctx
        = (False, Group AND (pre @ c # post)
                    # concat (map (\<lambda>t. snd (evaluate P t ctx)) (pre @ [c]))))
   \<and> (fst (evaluate P (Group AND ts) ctx) \<longleftrightarrow> (\<forall>t \<in> set ts. fst (evaluate P t ctx)))
   \<and> ((\<forall>t \<in> set pre_or. \<not> fst (evaluate P t ctx)) \<and> fst (evaluate P c_or ctx) \<longrightarrow>
      evaluate P (Group OR (pre_or @ c_or # post_or)) ctx
        = (True, Group OR (pre_or @ c_or # post_or)
                   # concat (map (\<lambda>t. snd (evaluate P t ctx)) (pre_or @ [c_or]))))
   \<and> (\<not> fst (evaluate P (Group OR us) ctx) \<longleftrightarrow> (\<forall>t \<in> set us. \<not> fst (evaluate P t ctx)))"
proof (intro conjI impI)
  assume "(\<forall>t \<in> set pre. fst (evaluate P t ctx)) \<and> \<not> fst (evaluate P c ctx)"
  then show "evaluate P (Group AND (pre @ c # post)) ctx
        = (False, Group AND (pre @ c # post)
                    # concat (map (\<lambda>t. snd (evaluate P t ctx)) (pre @ [c])))"
    using evaluate_and_first_false [of pre P ctx c post] by simp
next
  show "fst (evaluate P (Group AND ts) ctx) \<longleftrightarrow> (\<forall>t \<in> set ts. fst (evaluate P t ctx))"
    using evaluate_and_value [of P ts ctx] by (auto split: prod.splits)
next
  assume "(\<forall>t \<in> set pre_or. \<not> fst (evaluate P t ctx)) \<and> fst (evaluate P c_or ctx)"
  then show "evaluate P (Group OR (pre_or @ c_or # post_or)) ctx
        = (True, Group OR (pre_or @ c_or # post_or)
                   # concat (map (\<lambda>t. snd (evaluate P t ctx)) (pre_or @ [c_or])))"
    using evaluate_or_first_true [of pre_or P ctx c_or post_or] by simp
next
  show "\<not> fst (evaluate P (Group OR us) ctx) \<longleftrightarrow> (\<forall>t \<in> set us. \<not> fst (evaluate P t ctx))"
    using evaluate_or_value [of P us ctx] by (auto split: prod.splits)
qed

theorem group_short_circuit_witness:
  "evaluate (\<lambda>t ctx. t = Leaf ''always_true'' None None None)
      (Group AND [Leaf ''always_true'' None None None, Leaf ''never'' None None None,
                  Leaf ''x'' None None None]) ()
     = (False, [Group AND [Leaf ''always_true'' None None None, Leaf ''never'' None None None,
                           Leaf ''x'' None None None],
                Leaf ''always_true'' None None None, Leaf ''never'' None None None])
   \<and> evaluate (\<lambda>t ctx. t = Leaf ''always_true'' None None None)
      (Group OR [Leaf ''never'' None None None, Leaf ''always_true'' None None None,
                 Leaf ''x'' None None None]) ()
     = (True, [Group OR [Leaf ''never'' None None None, Leaf ''always_true'' None None None,
                         Leaf ''x'' None None None],
               Leaf ''never'' None None None, Leaf ''always_true'' None None None])"
  using group_short_circuit
          [where P = "\<lambda>t ctx. t = Leaf ''always_true'' None None None" and ctx = "()"
             and pre = "[Leaf ''always_true'' None None None]"
             and c = "Leaf ''never'' None None None"
             and post = "[Leaf ''x'' None None None]"
             and ts = "[Leaf ''always_true'' None None None]"
             and pre_or = "[Leaf ''never'' None None None]"
             and c_or = "Leaf ''always_true'' None None None"
             and post_or = "[Leaf ''x'' None None None]"
             and us = "[Leaf ''never'' None None None]"]
  by simp

end
